theory Spec2Isabelle
  imports Main "HOL-Library.AList"
begin

section \<open>JavaScript values\<close>

text \<open>
  The client is written in JavaScript: every configuration option, record field and
  header value is a dynamically typed value. The values that reach the code are
  modelled by \<open>jsval\<close>: \<open>undefined\<close> (also the value of a property that is not
  there), \<open>null\<close>, booleans, integer-valued numbers, strings and plain objects.
  A plain object is an association list from property names to values.
  \<open>JNum\<close> stands for the integer-valued Numbers that JavaScript prints with
  exactly their decimal digits: the integers of magnitude below \<open>2^53\<close>. Above
  that JavaScript prints the shortest digits that read back as the same Number, and
  from \<open>10^21\<close> on an exponent; such numbers, fractions, \<open>NaN\<close> and arrays are
  not modelled.
\<close>

datatype jsval =
    JUndefined
  | JNull
  | JBool bool
  | JNum int
  | JStr string
  | JObj "(string \<times> jsval) list"

type_synonym obj = "(string \<times> jsval) list"

text \<open>Property access \<open>o.k\<close> on a plain object: \<open>undefined\<close> when \<open>k\<close> is absent.\<close>

definition getprop :: "obj \<Rightarrow> string \<Rightarrow> jsval" where
  "getprop ob k = (case map_of ob k of None \<Rightarrow> JUndefined | Some v \<Rightarrow> v)"

text \<open>ToBoolean, as used by \<open>||\<close>, \<open>if\<close> and \<open>?:\<close>.\<close>

fun truthy :: "jsval \<Rightarrow> bool" where
  "truthy JUndefined = False"
| "truthy JNull = False"
| "truthy (JBool b) = b"
| "truthy (JNum n) = (n \<noteq> 0)"
| "truthy (JStr s) = (s \<noteq> [])"
| "truthy (JObj ob) = True"

text \<open>The operator \<open>a || b\<close>.\<close>

definition js_or :: "jsval \<Rightarrow> jsval \<Rightarrow> jsval" where
  "js_or a b = (if truthy a then a else b)"

text \<open>Decimal digits of a natural number, most significant first.\<close>

definition digit_char :: "nat \<Rightarrow> char" where
  "digit_char d = ''0123456789'' ! d"

fun digits :: "nat \<Rightarrow> string" where
  "digits n = (if n < 10 then [digit_char n] else digits (n div 10) @ [digit_char (n mod 10)])"

declare digits.simps [simp del]

text \<open>
  ToString, as applied by template literals and by \<open>+\<close> with a string operand.
\<close>

fun to_string :: "jsval \<Rightarrow> string" where
  "to_string JUndefined = ''undefined''"
| "to_string JNull = ''null''"
| "to_string (JBool b) = (if b then ''true'' else ''false'')"
| "to_string (JNum n) = (if n < 0 then CHR ''-'' # digits (nat (- n)) else digits (nat n))"
| "to_string (JStr s) = s"
| "to_string (JObj ob) = ''[object Object]''"

text \<open>
  \<open>Array.prototype.join\<close>: \<open>undefined\<close> and \<open>null\<close> elements give the empty
  string, every other element its ToString; the separator stands between elements.
\<close>

definition join_elem :: "jsval \<Rightarrow> string" where
  "join_elem v = (if v = JUndefined \<or> v = JNull then [] else to_string v)"

fun intersperse :: "string \<Rightarrow> string list \<Rightarrow> string" where
  "intersperse sep [] = []"
| "intersperse sep [x] = x"
| "intersperse sep (x # y # ys) = x @ sep @ intersperse sep (y # ys)"

definition join :: "jsval list \<Rightarrow> string \<Rightarrow> string" where
  "join xs sep = intersperse sep (map join_elem xs)"

section \<open>Constants and client construction\<close>

definition DELIMITER :: string where
  "DELIMITER = ''|''"

definition INSTRUCTOR :: string where
  "INSTRUCTOR = ''B''"

definition ORGANIZATION :: string where
  "ORGANIZATION = ''A''"

definition STUDENT :: string where
  "STUDENT = ''C''"

definition default_host :: string where
  "default_host = ''arc-course-record-entry-sf-eapi-qa.us-e1.cloudhub.io''"

text \<open>
  The repository holds two implementations of the client. Definitions with the
  suffix \<open>_lib\<close> embed \<^verbatim>\<open>src/lib/ArcCre.js\<close>; definitions with the suffix
  \<open>_p0\<close> embed \<^verbatim>\<open>src/unnamed/part_000\<close>. The fields both constructors set
  are the record \<open>client\<close>; each implementation extends it with its own.
  A logger is an object of the host program; it is modelled by the list of the
  method names it provides.
\<close>

record client =
  name :: string
  apiVersion :: jsval
  clientId :: jsval
  clientSecret :: jsval
  host :: jsval
  sourceSystem :: jsval

record client_lib = client +
  debug :: jsval

type_synonym logger = "string list"

record client_p0 = client +
  logger :: "logger option"
  loggerConfig :: jsval
  logLevel :: jsval
  protocol :: jsval
  timeout :: jsval

text \<open>
  \<open>function ArcCre(options)\<close> of \<^verbatim>\<open>src/lib/ArcCre.js\<close>. The argument is
  \<open>None\<close> when the caller passes nothing (\<open>options = options || { }\<close>).
\<close>

definition ArcCre_lib :: "obj option \<Rightarrow> client_lib" where
  "ArcCre_lib options =
    (let options = (case options of None \<Rightarrow> [] | Some ob \<Rightarrow> ob) in
     \<lparr> name = ''arcCre'',
       apiVersion = js_or (getprop options ''apiVersion'') (js_or (getprop options ''version'') (JNum 1)),
       clientId = getprop options ''clientId'',
       clientSecret = getprop options ''clientSecret'',
       host = js_or (getprop options ''host'') (JStr default_host),
       sourceSystem = getprop options ''sourceSystem'',
       debug = js_or (getprop options ''debug'') (JBool False) \<rparr>)"

text \<open>
  \<open>function ArcCre(options, logger)\<close> of \<^verbatim>\<open>src/unnamed/part_000\<close>.
  \<open>logger || null\<close> is \<open>None\<close> when no logger is passed.
\<close>

definition ArcCre_p0 :: "obj option \<Rightarrow> logger option \<Rightarrow> client_p0" where
  "ArcCre_p0 options lg =
    (let options = (case options of None \<Rightarrow> [] | Some ob \<Rightarrow> ob) in
     \<lparr> name = ''arc-cre'',
       apiVersion = js_or (getprop options ''apiVersion'') (js_or (getprop options ''version'') (JNum 1)),
       clientId = getprop options ''clientId'',
       clientSecret = getprop options ''clientSecret'',
       host = js_or (getprop options ''host'') (JStr default_host),
       sourceSystem = getprop options ''sourceSystem'',
       logger = lg,
       loggerConfig = getprop options ''loggerConfig'',
       logLevel = js_or (getprop options ''logLevel'') (JStr ''verbose''),
       protocol = js_or (getprop options ''protocol'') (JStr ''https''),
       timeout = js_or (getprop options ''timeout'') (JNum (1000 * 60 * 3)) \<rparr>)"

section \<open>URL construction\<close>

text \<open>
  \<open>endpoint.substring(0, 1) !== '/'\<close> compares the first character (the empty
  string for an empty endpoint) with the separator.
\<close>

definition normalize_endpoint :: "string \<Rightarrow> string" where
  "normalize_endpoint endpoint = (if take 1 endpoint \<noteq> ''/'' then ''/'' @ endpoint else endpoint)"

text \<open>\<open>_buildApiUrl\<close> of \<^verbatim>\<open>src/lib/ArcCre.js\<close>.\<close>

definition buildApiUrl_lib :: "client_lib \<Rightarrow> string \<Rightarrow> string" where
  "buildApiUrl_lib c endpoint =
    (let endpoint = normalize_endpoint endpoint in
     ''https://'' @ to_string (host c) @ ''/v'' @ (to_string (apiVersion c) @ endpoint))"

text \<open>\<open>_buildPath\<close>, \<open>_buildScheme\<close> and \<open>_buildApiUrl\<close> of \<^verbatim>\<open>src/unnamed/part_000\<close>.\<close>

definition buildPath_p0 :: "client_p0 \<Rightarrow> string \<Rightarrow> string" where
  "buildPath_p0 c endpoint =
    (let endpoint = normalize_endpoint endpoint in
     ''/course/recordentry/eapi/v'' @ (to_string (apiVersion c) @ endpoint))"

definition buildScheme_p0 :: "client_p0 \<Rightarrow> string" where
  "buildScheme_p0 c = to_string (protocol c) @ ''://'' @ to_string (host c)"

definition buildApiUrl_p0 :: "client_p0 \<Rightarrow> string \<Rightarrow> string" where
  "buildApiUrl_p0 c endpoint = buildScheme_p0 c @ buildPath_p0 c endpoint"

section \<open>Record serialization\<close>

text \<open>
  A record option is a plain object. The \<open>switch\<close> on \<open>option.type\<close> compares
  with \<open>===\<close>, so only the strings \<open>'A'\<close>, \<open>'B'\<close> and \<open>'C'\<close> select a case.
  \<open>line_lib\<close> and \<open>line_p0\<close> are the body of the \<open>switch\<close> for one option:
  the line that is pushed, or \<open>None\<close> when no case matches.
\<close>

definition line_lib :: "jsval \<Rightarrow> jsval \<Rightarrow> jsval \<Rightarrow> obj \<Rightarrow> string option" where
  "line_lib organizationId batchId classId option =
    (if getprop option ''type'' = JStr ORGANIZATION then
       Some (join [organizationId, batchId, classId, JStr ORGANIZATION, getprop option ''organizationName'',
                   getprop option ''poAccountName'', getprop option ''productSKU'', getprop option ''startDate'',
                   getprop option ''endDate'', getprop option ''numberOfStudents'',
                   getprop option ''facilityName'', getprop option ''address'', getprop option ''city'',
                   getprop option ''state'', getprop option ''zipCode''] DELIMITER)
     else if getprop option ''type'' = JStr INSTRUCTOR then
       Some (join [organizationId, batchId, classId, JStr ORGANIZATION, getprop option ''instructorID'',
                   getprop option ''firstName'', getprop option ''lastName'', getprop option ''email''] DELIMITER)
     else if getprop option ''type'' = JStr STUDENT then
       Some (join [organizationId, batchId, classId, JStr ORGANIZATION, getprop option ''firstName'',
                   getprop option ''lastName'', getprop option ''email'', getprop option ''phoneNumber'',
                   getprop option ''mastery'', getprop option ''notes''] DELIMITER)
     else None)"

definition line_p0 :: "client_p0 \<Rightarrow> jsval \<Rightarrow> jsval \<Rightarrow> jsval \<Rightarrow> obj \<Rightarrow> string option" where
  "line_p0 c organizationId batchId classId option =
    (if getprop option ''type'' = JStr ORGANIZATION then
       Some (join [organizationId, batchId, classId, JStr ORGANIZATION, organizationId,
                   sourceSystem c, getprop option ''poAccountName'', getprop option ''productSKU'',
                   getprop option ''startDate'', getprop option ''endDate'',
                   getprop option ''numberOfStudents'', getprop option ''facilityName'',
                   getprop option ''address'', getprop option ''city'', getprop option ''state'',
                   getprop option ''zipCode''] DELIMITER)
     else if getprop option ''type'' = JStr INSTRUCTOR then
       Some (join [organizationId, batchId, classId, JStr INSTRUCTOR, getprop option ''instructorID'',
                   getprop option ''firstName'', getprop option ''lastName'', getprop option ''email''] DELIMITER)
     else if getprop option ''type'' = JStr STUDENT then
       Some (join [organizationId, batchId, classId, JStr STUDENT, getprop option ''firstName'',
                   getprop option ''lastName'', getprop option ''email'', getprop option ''phoneNumber'',
                   getprop option ''mastery'', getprop option ''notes''] DELIMITER)
     else None)"

text \<open>The \<open>for ... of\<close> loop of \<open>createCRE\<close>: the array \<open>lines\<close> after the loop.\<close>

fun lines_lib :: "jsval \<Rightarrow> jsval \<Rightarrow> jsval \<Rightarrow> obj list \<Rightarrow> string list" where
  "lines_lib organizationId batchId classId [] = []"
| "lines_lib organizationId batchId classId (option # options) =
    (case line_lib organizationId batchId classId option of
       None \<Rightarrow> lines_lib organizationId batchId classId options
     | Some l \<Rightarrow> l # lines_lib organizationId batchId classId options)"

fun lines_p0 :: "client_p0 \<Rightarrow> jsval \<Rightarrow> jsval \<Rightarrow> jsval \<Rightarrow> obj list \<Rightarrow> string list" where
  "lines_p0 c organizationId batchId classId [] = []"
| "lines_p0 c organizationId batchId classId (option # options) =
    (case line_p0 c organizationId batchId classId option of
       None \<Rightarrow> lines_p0 c organizationId batchId classId options
     | Some l \<Rightarrow> l # lines_p0 c organizationId batchId classId options)"

text \<open>The line breaks: \<open>'\r\n'\<close> in \<^verbatim>\<open>src/lib/ArcCre.js\<close>, \<open>'\n'\<close> in \<^verbatim>\<open>src/unnamed/part_000\<close>.\<close>

definition CRLF :: string where
  "CRLF = [CHR 0x0D, CHR 0x0A]"

definition LF :: string where
  "LF = [CHR 0x0A]"

definition body_lib :: "jsval \<Rightarrow> jsval \<Rightarrow> jsval \<Rightarrow> obj list \<Rightarrow> string" where
  "body_lib organizationId batchId classId options =
    join (map JStr (lines_lib organizationId batchId classId options)) CRLF"

definition body_p0 :: "client_p0 \<Rightarrow> jsval \<Rightarrow> jsval \<Rightarrow> jsval \<Rightarrow> obj list \<Rightarrow> string" where
  "body_p0 c organizationId batchId classId options =
    join (map JStr (lines_p0 c organizationId batchId classId options)) LF"

section \<open>Requests, responses and errors\<close>

text \<open>
  The request description handed to the HTTP transport (axios). A key the code does
  not set is \<open>JUndefined\<close>. The key \<open>method\<close> of the source is the field
  \<open>http_method\<close>, its key \<open>timeout\<close> the field \<open>config_timeout\<close>.
\<close>

record config =
  http_method :: string
  url :: jsval
  params :: jsval
  data :: jsval
  headers :: jsval
  config_timeout :: jsval

text \<open>
  What the code reads of a response: \<open>status\<close>, \<open>statusText\<close>, \<open>data\<close>
  (the field \<open>res_data\<close>) and \<open>request.path\<close> (the field \<open>request_path\<close>).
\<close>

record response =
  status :: nat
  statusText :: string
  res_data :: jsval
  request_path :: string

text \<open>
  A thrown value is either a \<open>TypeError\<close> of the runtime (a property read on
  \<open>undefined\<close> or \<open>null\<close>, a call of something that is no function) or an
  \<open>Error\<close> object with its \<open>message\<close> and the properties \<open>response\<close>,
  \<open>code\<close> and \<open>meta\<close> (absent: \<open>None\<close>, \<open>JUndefined\<close>).
\<close>

record error_obj =
  message :: string
  response :: "response option"
  code :: jsval
  meta :: jsval

datatype js_error = TypeError string | Error error_obj

text \<open>\<open>e.response\<close> of a caught value.\<close>

fun err_response :: "js_error \<Rightarrow> response option" where
  "err_response (TypeError m) = None"
| "err_response (Error e) = response e"

text \<open>
  The transport is the external collaborator: a function from the request description
  to a rejection (\<open>Inl\<close>) or a response (\<open>Inr\<close>). A settled promise of the client
  is the same sum, with the resolved value on the right.
\<close>

type_synonym transport = "config \<Rightarrow> js_error + response"

section \<open>Default headers\<close>

text \<open>
  \<open>_.defaults(object, source)\<close> of the library lodash, which is not part of the
  repository: for each key of \<open>source\<close> it assigns \<open>object[key] = source[key]\<close>
  when \<open>object[key]\<close> is \<open>undefined\<close>. An object argument is filled in place.
  When the argument is \<open>undefined\<close>, \<open>null\<close> or another non-object there is
  nothing to fill: whatever the call returns is another object, and the argument is
  as it was. Both clients drop the returned value, so \<open>lodash_defaults\<close> gives the
  first argument as the call leaves it. (lodash also assigns over a value inherited
  from \<open>Object.prototype\<close>; no header of the client has such a name.)
\<close>

definition assign_default :: "obj \<Rightarrow> string \<Rightarrow> obj \<Rightarrow> obj" where
  "assign_default source key object =
    (if getprop object key = JUndefined then AList.update key (getprop source key) object else object)"

definition defaults_obj :: "obj \<Rightarrow> obj \<Rightarrow> obj" where
  "defaults_obj object source = fold (assign_default source) (map fst source) object"

definition lodash_defaults :: "jsval \<Rightarrow> obj \<Rightarrow> jsval" where
  "lodash_defaults object source =
    (case object of
       JObj ob \<Rightarrow> JObj (defaults_obj ob source)
     | _ \<Rightarrow> object)"

text \<open>The object literal \<open>defaultHeaders\<close>, the same in both implementations.\<close>

definition defaultHeaders :: "'a client_scheme \<Rightarrow> obj" where
  "defaultHeaders c =
    [(''client_id'', clientId c),
     (''client_secret'', clientSecret c),
     (''Content-Type'', JStr ''text/plain''),
     (''source_system'', sourceSystem c)]"

section \<open>The client of \<^verbatim>\<open>src/lib/ArcCre.js\<close>\<close>

text \<open>
  \<open>_request\<close> up to the call of the transport: the request description that is
  dispatched. \<open>config.headers\<close> is what \<open>_.defaults\<close> left in its argument.
\<close>

definition request_config_lib :: "client_lib \<Rightarrow> config \<Rightarrow> config" where
  "request_config_lib c config =
    config\<lparr>headers := lodash_defaults (headers config) (defaultHeaders c)\<rparr>"

text \<open>
  \<open>_request\<close>: the \<open>catch\<close> block reads \<open>e.response.status\<close> of whatever
  was thrown, which is a \<open>TypeError\<close> when \<open>e.response\<close> is \<open>undefined\<close>.
\<close>

definition request_lib :: "transport \<Rightarrow> client_lib \<Rightarrow> config \<Rightarrow> js_error + jsval" where
  "request_lib axios c config =
    (let config = request_config_lib c config in
     case axios config of
       Inr resp \<Rightarrow> Inr (res_data resp)
     | Inl e \<Rightarrow>
        (case err_response e of
           None \<Rightarrow> Inl (TypeError ''Cannot read properties of undefined (reading status)'')
         | Some r \<Rightarrow>
            Inl (Error \<lparr> message = digits (status r) @ '' - '' @ to_string (url config) @ '' failed'',
                         response = None,
                         code = JNum (int (status r)),
                         meta = res_data r \<rparr>)))"

text \<open>
  \<open>_get\<close> and \<open>_post\<close>: the object literal \<open>options\<close> each of them builds, and
  the call of \<open>_request\<close> with it. \<open>_get\<close> sets no \<open>data\<close>, and neither sets a
  \<open>timeout\<close>. The arguments \<open>params0\<close> and \<open>headers0\<close> are the parameters
  \<open>params\<close> and \<open>headers\<close> of the source.
\<close>

definition get_config_lib :: "client_lib \<Rightarrow> string \<Rightarrow> jsval \<Rightarrow> jsval \<Rightarrow> config" where
  "get_config_lib c endpoint params0 headers0 =
    \<lparr> http_method = ''get'',
      url = JStr (buildApiUrl_lib c endpoint),
      params = js_or params0 (JObj []),
      data = JUndefined,
      headers = headers0,
      config_timeout = JUndefined \<rparr>"

definition get_lib :: "transport \<Rightarrow> client_lib \<Rightarrow> string \<Rightarrow> jsval \<Rightarrow> jsval \<Rightarrow> js_error + jsval" where
  "get_lib axios c endpoint params0 headers0 =
    request_lib axios c (get_config_lib c endpoint params0 headers0)"

definition post_config_lib :: "client_lib \<Rightarrow> string \<Rightarrow> jsval \<Rightarrow> jsval \<Rightarrow> jsval \<Rightarrow> config" where
  "post_config_lib c endpoint params0 body headers0 =
    \<lparr> http_method = ''post'',
      url = JStr (buildApiUrl_lib c endpoint),
      params = js_or params0 (JObj []),
      data = body,
      headers = headers0,
      config_timeout = JUndefined \<rparr>"

definition post_lib ::
  "transport \<Rightarrow> client_lib \<Rightarrow> string \<Rightarrow> jsval \<Rightarrow> jsval \<Rightarrow> jsval \<Rightarrow> js_error + jsval" where
  "post_lib axios c endpoint params0 body headers0 =
    request_lib axios c (post_config_lib c endpoint params0 body headers0)"

text \<open>The three operations.\<close>

definition createCRE_lib ::
  "transport \<Rightarrow> client_lib \<Rightarrow> jsval \<Rightarrow> jsval \<Rightarrow> jsval \<Rightarrow> obj list \<Rightarrow> js_error + jsval" where
  "createCRE_lib axios c organizationId batchId classId options =
    post_lib axios c ''/cre'' JNull (JStr (body_lib organizationId batchId classId options)) JNull"

definition getCRE_lib :: "transport \<Rightarrow> client_lib \<Rightarrow> jsval \<Rightarrow> js_error + jsval" where
  "getCRE_lib axios c offeringId =
    get_lib axios c (''/cre/'' @ to_string offeringId) JUndefined JUndefined"

definition ping_lib :: "transport \<Rightarrow> client_lib \<Rightarrow> js_error + jsval" where
  "ping_lib axios c = get_lib axios c ''/ping'' JUndefined JUndefined"

section \<open>The client of \<^verbatim>\<open>src/unnamed/part_000\<close>\<close>

text \<open>
  The line handed to the logger is \<open>_.compact(logParts).join(' ')\<close>. It is
  modelled by the list of its parts before the join: a text, or the value that
  \<open>JSON.stringify\<close> renders. \<open>_.compact\<close> of lodash drops the falsy parts:
  \<open>null\<close> (\<open>None\<close>), the empty string, and \<open>undefined\<close>, which is what
  \<open>JSON.stringify(undefined)\<close> returns; every other value renders to a
  non-empty text.
\<close>

datatype logpart = Text string | Json jsval

fun compact :: "logpart option list \<Rightarrow> logpart list" where
  "compact [] = []"
| "compact (None # ps) = compact ps"
| "compact (Some (Text s) # ps) = (if s = [] then compact ps else Text s # compact ps)"
| "compact (Some (Json v) # ps) = (if v = JUndefined then compact ps else Json v # compact ps)"

text \<open>
  \<open>_writeLog\<close>. Nothing is written without a logger. With a logger,
  \<open>this.loggerConfig.url\<close> throws when \<open>loggerConfig\<close> is \<open>undefined\<close> or
  \<open>null\<close>, and \<open>this.logger[logLevel]\<close> must be a method of the logger; a method
  that is there is taken to return normally. The result is the level and the parts
  of the line handed to the logger.
\<close>

definition writeLog_p0 ::
  "client_p0 \<Rightarrow> string \<Rightarrow> config \<Rightarrow> response \<Rightarrow> jsval \<Rightarrow> js_error + (string \<times> logpart list) option" where
  "writeLog_p0 c endpoint axiosConfig resp level =
    (case logger c of
       None \<Rightarrow> Inr None
     | Some lg \<Rightarrow>
        if loggerConfig c = JUndefined \<or> loggerConfig c = JNull then
          Inl (TypeError ''Cannot read properties of undefined (reading url)'')
        else
          (let toggle = (\<lambda>k. case loggerConfig c of JObj ob \<Rightarrow> getprop ob k | _ \<Rightarrow> JUndefined);
               logParts =
                 [Some (Text (''['' @ name c @ '':'' @ to_string (host c) @ '']'')),
                  Some (Text (http_method axiosConfig)),
                  (if truthy (toggle ''url'') then Some (Text (buildScheme_p0 c)) else None),
                  (if truthy (toggle ''params'') then Some (Text (request_path resp))
                   else Some (Text endpoint)),
                  (if truthy (toggle ''data'') then Some (Json (data axiosConfig)) else None),
                  Some (Text (digits (status resp) @ '' '' @ statusText resp)),
                  (if truthy (toggle ''response'') then Some (Json (res_data resp)) else None)];
               log = compact logParts
           in if to_string level \<in> set lg then Inr (Some (to_string level, log))
              else Inl (TypeError ''this.logger[logLevel] is not a function'')))"

text \<open>\<open>_request\<close> up to the call of the transport: the request description dispatched.\<close>

definition request_config_p0 :: "client_p0 \<Rightarrow> string \<Rightarrow> config \<Rightarrow> config" where
  "request_config_p0 c endpoint config =
    (let config = config\<lparr>url := JStr (buildApiUrl_p0 c endpoint)\<rparr>;
         config = config\<lparr>headers := js_or (headers config) (JObj [])\<rparr>;
         config = config\<lparr>headers := lodash_defaults (headers config) (defaultHeaders c)\<rparr>
     in if truthy (timeout c) then config\<lparr>config_timeout := timeout c\<rparr> else config)"

text \<open>
  \<open>_request\<close>: what was handed to the logger, and the settled promise.
\<close>

definition request_p0 ::
  "transport \<Rightarrow> client_p0 \<Rightarrow> string \<Rightarrow> config
     \<Rightarrow> (string \<times> logpart list) option \<times> (js_error + jsval)" where
  "request_p0 axios c endpoint config =
    (let config = request_config_p0 c endpoint config in
     case axios config of
       Inl e \<Rightarrow>
        (case err_response e of
           None \<Rightarrow> (None, Inl e)
         | Some r \<Rightarrow>
            (case writeLog_p0 c endpoint config r (JStr ''error'') of
               Inl t \<Rightarrow> (None, Inl t)
             | Inr written \<Rightarrow>
                if status r = 404 then (written, Inr JNull) else (written, Inl e)))
     | Inr resp \<Rightarrow>
        (case writeLog_p0 c endpoint config resp (logLevel c) of
           Inl t \<Rightarrow> (None, Inl t)
         | Inr written \<Rightarrow> (written, Inr (res_data resp))))"

text \<open>
  \<open>get\<close> and \<open>post\<close>: the object literal \<open>config\<close> each of them builds (the URL
  is set later, by \<open>_request\<close>), and the call of \<open>_request\<close> with it.
\<close>

definition get_config_p0 :: "jsval \<Rightarrow> jsval \<Rightarrow> config" where
  "get_config_p0 params0 headers0 =
    \<lparr> http_method = ''GET'',
      url = JUndefined,
      params = js_or params0 (JObj []),
      data = JUndefined,
      headers = headers0,
      config_timeout = JUndefined \<rparr>"

definition get_p0 ::
  "transport \<Rightarrow> client_p0 \<Rightarrow> string \<Rightarrow> jsval \<Rightarrow> jsval
     \<Rightarrow> (string \<times> logpart list) option \<times> (js_error + jsval)" where
  "get_p0 axios c endpoint params0 headers0 =
    request_p0 axios c endpoint (get_config_p0 params0 headers0)"

definition post_config_p0 :: "jsval \<Rightarrow> jsval \<Rightarrow> jsval \<Rightarrow> config" where
  "post_config_p0 params0 data0 headers0 =
    \<lparr> http_method = ''POST'',
      url = JUndefined,
      params = js_or params0 (JObj []),
      data = data0,
      headers = headers0,
      config_timeout = JUndefined \<rparr>"

definition post_p0 ::
  "transport \<Rightarrow> client_p0 \<Rightarrow> string \<Rightarrow> jsval \<Rightarrow> jsval \<Rightarrow> jsval
     \<Rightarrow> (string \<times> logpart list) option \<times> (js_error + jsval)" where
  "post_p0 axios c endpoint params0 data0 headers0 =
    request_p0 axios c endpoint (post_config_p0 params0 data0 headers0)"

text \<open>The three operations.\<close>

definition createCRE_p0 ::
  "transport \<Rightarrow> client_p0 \<Rightarrow> jsval \<Rightarrow> jsval \<Rightarrow> jsval \<Rightarrow> obj list
     \<Rightarrow> (string \<times> logpart list) option \<times> (js_error + jsval)" where
  "createCRE_p0 axios c organizationId batchId classId options =
    post_p0 axios c ''/cre'' JNull
      (JStr (body_p0 c organizationId batchId classId options)) JNull"

definition getCRE_p0 ::
  "transport \<Rightarrow> client_p0 \<Rightarrow> jsval
     \<Rightarrow> (string \<times> logpart list) option \<times> (js_error + jsval)" where
  "getCRE_p0 axios c offeringId =
    get_p0 axios c (''/cre/'' @ to_string offeringId) JUndefined JUndefined"

definition ping_p0 ::
  "transport \<Rightarrow> client_p0
     \<Rightarrow> (string \<times> logpart list) option \<times> (js_error + jsval)" where
  "ping_p0 axios c = get_p0 axios c ''/ping'' JUndefined JUndefined"

section \<open>Predicates of the specification\<close>

text \<open>
  A record is recognized when its discriminant is one of the three codes.
\<close>

definition recognized :: "obj \<Rightarrow> bool" where
  "recognized option =
    (getprop option ''type'' = JStr ORGANIZATION \<or> getprop option ''type'' = JStr INSTRUCTOR
      \<or> getprop option ''type'' = JStr STUDENT)"

text \<open>\<open>str_includes s u\<close>: the text \<open>u\<close> occurs in \<open>s\<close>.\<close>

fun str_includes :: "string \<Rightarrow> string \<Rightarrow> bool" where
  "str_includes [] u = (u = [])"
| "str_includes (x # xs) u = (take (length u) (x # xs) = u \<or> str_includes xs u)"

section \<open>Sample inputs\<close>

text \<open>One record of each kind, as a caller of \<open>createCRE\<close> writes them.\<close>

definition sample_organization :: obj where
  "sample_organization =
    [(''type'', JStr ''A''), (''organizationName'', JStr ''Acme Training''),
     (''poAccountName'', JStr ''PO-77''), (''productSKU'', JStr ''SKU-9''),
     (''startDate'', JStr ''2020-01-15''), (''endDate'', JStr ''2020-01-16''),
     (''numberOfStudents'', JNum 1), (''facilityName'', JStr ''Main Hall''),
     (''address'', JStr ''1 Elm St''), (''city'', JStr ''Austin''), (''state'', JStr ''TX''),
     (''zipCode'', JStr ''78701'')]"

definition sample_instructor :: obj where
  "sample_instructor =
    [(''type'', JStr ''B''), (''instructorID'', JStr ''I-100''), (''firstName'', JStr ''Ann''),
     (''lastName'', JStr ''Lee''), (''email'', JStr ''ann@example.org'')]"

definition sample_student :: obj where
  "sample_student =
    [(''type'', JStr ''C''), (''firstName'', JStr ''Bob''), (''lastName'', JStr ''Ray''),
     (''email'', JStr ''bob@example.org''), (''phoneNumber'', JStr ''5550100''),
     (''mastery'', JStr ''Successful'')]"

definition sample_unknown :: obj where
  "sample_unknown = [(''type'', JStr ''D''), (''firstName'', JStr ''Eve'')]"

text \<open>A Student record whose \<open>notes\<close> hold a line break.\<close>

definition sample_student_two_line_notes :: obj where
  "sample_student_two_line_notes =
    [(''type'', JStr ''C''), (''firstName'', JStr ''Bob''), (''lastName'', JStr ''Ray''),
     (''notes'', JStr (''late'' @ [CHR 0x0A] @ ''paid''))]"

text \<open>Clients with credentials, with and without a logger.\<close>

definition sample_options :: obj where
  "sample_options =
    [(''clientId'', JStr ''id-1''), (''clientSecret'', JStr ''s3cret''),
     (''sourceSystem'', JStr ''LMS''), (''host'', JStr ''cre.example.org'')]"

definition sample_client_lib :: client_lib where
  "sample_client_lib = ArcCre_lib (Some sample_options)"

definition sample_client_p0 :: client_p0 where
  "sample_client_p0 = ArcCre_p0 (Some sample_options) None"

definition sample_logger :: logger where
  "sample_logger = [''error'', ''warn'', ''info'', ''verbose'', ''debug'']"

definition sample_client_p0_logger :: client_p0 where
  "sample_client_p0_logger = ArcCre_p0 (Some sample_options) (Some sample_logger)"

text \<open>
  Transports: two that answer 200 and return as the body the headers, or the data,
  of the request they were given; one that fails before any response (a timeout);
  and one whose upstream answers with an error status, rejecting the way axios does.
\<close>

definition axios_echo_headers :: transport where
  "axios_echo_headers cfg =
    Inr \<lparr> status = 200, statusText = ''OK'', res_data = headers cfg, request_path = ''/'' \<rparr>"

definition axios_echo_data :: transport where
  "axios_echo_data cfg =
    Inr \<lparr> status = 200, statusText = ''OK'', res_data = data cfg, request_path = ''/'' \<rparr>"

definition timeout_error :: js_error where
  "timeout_error =
    Error \<lparr> message = ''timeout of 180000ms exceeded'', response = None,
            code = JStr ''ECONNABORTED'', meta = JUndefined \<rparr>"

definition axios_timeout :: transport where
  "axios_timeout cfg = Inl timeout_error"

definition upstream_response :: "nat \<Rightarrow> string \<Rightarrow> response" where
  "upstream_response n txt =
    \<lparr> status = n, statusText = txt, res_data = JStr ''upstream says no'', request_path = ''/'' \<rparr>"

definition status_error :: "nat \<Rightarrow> string \<Rightarrow> js_error" where
  "status_error n txt =
    Error \<lparr> message = ''Request failed with status code '' @ digits n,
            response = Some (upstream_response n txt),
            code = JStr ''ERR_BAD_RESPONSE'', meta = JUndefined \<rparr>"

definition axios_status :: "nat \<Rightarrow> string \<Rightarrow> transport" where
  "axios_status n txt cfg = Inl (status_error n txt)"

section \<open>Unfolding rules\<close>

lemmas sample_defs = sample_organization_def sample_instructor_def sample_student_def
  sample_unknown_def sample_student_two_line_notes_def sample_options_def sample_client_lib_def sample_client_p0_def
  sample_logger_def sample_client_p0_logger_def axios_echo_headers_def axios_echo_data_def
  timeout_error_def axios_timeout_def upstream_response_def status_error_def axios_status_def

lemmas client_defs = ArcCre_lib_def ArcCre_p0_def getprop_def js_or_def default_host_def
  buildApiUrl_lib_def buildApiUrl_p0_def buildPath_p0_def buildScheme_p0_def
  normalize_endpoint_def digits.simps digit_char_def

lemmas serial_defs = line_lib_def line_p0_def join_def join_elem_def DELIMITER_def
  ORGANIZATION_def INSTRUCTOR_def STUDENT_def body_lib_def body_p0_def CRLF_def LF_def

lemmas request_defs = request_config_lib_def request_lib_def get_config_lib_def get_lib_def
  post_config_lib_def post_lib_def createCRE_lib_def getCRE_lib_def ping_lib_def
  request_config_p0_def request_p0_def get_config_p0_def get_p0_def post_config_p0_def
  post_p0_def createCRE_p0_def getCRE_p0_def ping_p0_def writeLog_p0_def
  lodash_defaults_def defaults_obj_def assign_default_def defaultHeaders_def

section \<open>Texts and objects\<close>

lemma str_includes_prefix: "str_includes (u @ s) u"
proof (cases "u @ s")
  case Nil
  then show ?thesis by simp
next
  case (Cons a list)
  have "take (length u) (u @ s) = u" by simp
  with Cons show ?thesis by simp
qed

lemma str_includes_infix: "str_includes (p @ u @ s) u"
  by (induction p) (auto simp: str_includes_prefix)

lemma getprop_update: "getprop (AList.update k v ob) k' = (if k' = k then v else getprop ob k')"
  by (simp add: getprop_def update_conv')

lemma getprop_absent: "k \<notin> fst ` set src \<Longrightarrow> getprop src k = JUndefined"
proof -
  assume "k \<notin> fst ` set src"
  then have "map_of src k = None" by (simp add: map_of_eq_None_iff)
  then show ?thesis by (simp add: getprop_def)
qed

text \<open>
  After the assignments for the keys \<open>ks\<close>, a property is the default exactly when
  it was \<open>undefined\<close> before and its key is among \<open>ks\<close>.
\<close>

lemma getprop_fold_assign:
  "getprop (fold (assign_default src) ks ob) k =
     (if getprop ob k = JUndefined \<and> k \<in> set ks then getprop src k else getprop ob k)"
proof (induction ks arbitrary: ob)
  case Nil
  show ?case by simp
next
  case (Cons a ks)
  have step: "getprop (assign_default src a ob) j =
      (if getprop ob j = JUndefined \<and> j = a then getprop src j else getprop ob j)" for j
    by (simp add: assign_default_def getprop_update)
  have "getprop (fold (assign_default src) (a # ks) ob) k =
      getprop (fold (assign_default src) ks (assign_default src a ob)) k"
    by simp
  also have "\<dots> = (if getprop (assign_default src a ob) k = JUndefined \<and> k \<in> set ks
      then getprop src k else getprop (assign_default src a ob) k)"
    by (rule Cons.IH)
  also have "\<dots> = (if getprop ob k = JUndefined \<and> k \<in> set (a # ks)
      then getprop src k else getprop ob k)"
    by (auto simp: step)
  finally show ?case .
qed

lemma getprop_defaults_obj:
  "getprop (defaults_obj ob src) k =
     (if getprop ob k = JUndefined then getprop src k else getprop ob k)"
  using getprop_absent [of k src]
  by (auto simp: defaults_obj_def getprop_fold_assign)

section \<open>Serialization of a batch\<close>

lemma line_lib_None:
  "(line_lib organizationId batchId classId option = None) = (\<not> recognized option)"
  by (simp add: line_lib_def recognized_def)

lemma line_p0_None:
  "(line_p0 c organizationId batchId classId option = None) = (\<not> recognized option)"
  by (simp add: line_p0_def recognized_def)

lemma lines_lib_filter:
  "lines_lib organizationId batchId classId options =
     map (\<lambda>r. the (line_lib organizationId batchId classId r)) (filter recognized options)"
proof (induction options)
  case Nil
  show ?case by simp
next
  case (Cons option options)
  show ?case
  proof (cases "line_lib organizationId batchId classId option")
    case None
    then have "\<not> recognized option" by (simp add: line_lib_None)
    with None Cons show ?thesis by simp
  next
    case (Some l)
    then have "recognized option"
      using line_lib_None [of organizationId batchId classId option] by auto
    with Some Cons show ?thesis by simp
  qed
qed

lemma lines_p0_filter:
  "lines_p0 c organizationId batchId classId options =
     map (\<lambda>r. the (line_p0 c organizationId batchId classId r)) (filter recognized options)"
proof (induction options)
  case Nil
  show ?case by simp
next
  case (Cons option options)
  show ?case
  proof (cases "line_p0 c organizationId batchId classId option")
    case None
    then have "\<not> recognized option" by (simp add: line_p0_None)
    with None Cons show ?thesis by simp
  next
    case (Some l)
    then have "recognized option"
      using line_p0_None [of c organizationId batchId classId option] by auto
    with Some Cons show ?thesis by simp
  qed
qed

text \<open>
  \<open>join\<close> on an array of strings puts the separator between them, and nothing else.
\<close>

lemma join_strings: "join (map JStr ls) sep = intersperse sep ls"
proof -
  have "map join_elem (map JStr ls) = ls"
    by (induction ls) (simp_all add: join_elem_def)
  then show ?thesis by (simp add: join_def)
qed

lemma intersperse_Cons:
  "ls \<noteq> [] \<Longrightarrow> intersperse sep (l # ls) = l @ sep @ intersperse sep ls"
  by (cases ls) simp_all

text \<open>
  The occurrences of a character in the joined text: those of the separator, once
  between each two neighbours, and those inside the parts.
\<close>

lemma count_intersperse:
  "count_list (intersperse sep ls) ch =
     (length ls - 1) * count_list sep ch + sum_list (map (\<lambda>l. count_list l ch) ls)"
proof (induction sep ls rule: intersperse.induct)
  case (1 sep)
  show ?case by simp
next
  case (2 sep x)
  show ?case by simp
next
  case (3 sep x y ys)
  then show ?case by simp
qed

text \<open>
  The body is the serialized lines of the recognized records, in order and one for
  each, with the line break between them.
\<close>

lemma body_lib_recognized:
  "body_lib organizationId batchId classId options =
     intersperse CRLF
       (map (\<lambda>r. the (line_lib organizationId batchId classId r)) (filter recognized options))"
  by (simp only: body_lib_def join_strings lines_lib_filter)

lemma body_p0_recognized:
  "body_p0 c organizationId batchId classId options =
     intersperse LF
       (map (\<lambda>r. the (line_p0 c organizationId batchId classId r)) (filter recognized options))"
  by (simp only: body_p0_def join_strings lines_p0_filter)

text \<open>
  A field is written as it is. The body therefore has one line break fewer than there
  are recognized records, and one more for every line break inside a field of theirs.
\<close>

lemma body_p0_line_breaks:
  "count_list (body_p0 c organizationId batchId classId options) (CHR 0x0A) =
     (length (filter recognized options) - 1)
     + sum_list (map (\<lambda>r. count_list (the (line_p0 c organizationId batchId classId r)) (CHR 0x0A))
          (filter recognized options))"
  by (simp add: body_p0_recognized count_intersperse LF_def comp_def)

lemma body_lib_line_breaks:
  "count_list (body_lib organizationId batchId classId options) (CHR 0x0A) =
     (length (filter recognized options) - 1)
     + sum_list (map (\<lambda>r. count_list (the (line_lib organizationId batchId classId r)) (CHR 0x0A))
          (filter recognized options))"
  by (simp add: body_lib_recognized count_intersperse CRLF_def comp_def)

lemma line_break_in_field_kept:
  "body_p0 sample_client_p0 (JStr ''ORG1'') (JNum 12) (JNum 34) [sample_student_two_line_notes] =
     ''ORG1|12|34|C|Bob|Ray||||late'' @ LF @ ''paid''"
  by (simp add: sample_defs client_defs serial_defs)

text \<open>
  Claim C7. For every sequence of records passed to \<open>createCRE\<close>, in both
  implementations: a record yields no line exactly when its discriminant is none of
  \<open>'A'\<close>, \<open>'B'\<close>, \<open>'C'\<close>; the lines are those of the recognized records alone, in
  order and one for each; the call settles as it does on the recognized records
  alone, so that an unrecognized record raises nothing; and the body that is posted to
  \<open>/cre\<close> is exactly the serialized lines of the recognized records, one for each
  and in their order, with the line break of the implementation between them.
  A line here is the text that \<open>createCRE\<close> writes for one record.
\<close>

theorem unrecognized_records_skipped:
  "(line_lib organizationId batchId classId r = None) = (\<not> recognized r)
   \<and> (line_p0 c organizationId batchId classId r = None) = (\<not> recognized r)
   \<and> lines_lib organizationId batchId classId options =
       lines_lib organizationId batchId classId (filter recognized options)
   \<and> length (lines_lib organizationId batchId classId options) = length (filter recognized options)
   \<and> createCRE_lib axios cl organizationId batchId classId options =
       createCRE_lib axios cl organizationId batchId classId (filter recognized options)
   \<and> lines_p0 c organizationId batchId classId options =
       lines_p0 c organizationId batchId classId (filter recognized options)
   \<and> length (lines_p0 c organizationId batchId classId options) = length (filter recognized options)
   \<and> createCRE_p0 axios c organizationId batchId classId options =
       createCRE_p0 axios c organizationId batchId classId (filter recognized options)
   \<and> body_lib organizationId batchId classId options =
       intersperse CRLF
         (map (\<lambda>r. the (line_lib organizationId batchId classId r)) (filter recognized options))
   \<and> body_p0 c organizationId batchId classId options =
       intersperse LF
         (map (\<lambda>r. the (line_p0 c organizationId batchId classId r)) (filter recognized options))
   \<and> createCRE_lib axios cl organizationId batchId classId options =
       post_lib axios cl ''/cre'' JNull
         (JStr (intersperse CRLF
           (map (\<lambda>r. the (line_lib organizationId batchId classId r)) (filter recognized options))))
         JNull
   \<and> createCRE_p0 axios c organizationId batchId classId options =
       post_p0 axios c ''/cre'' JNull
         (JStr (intersperse LF
           (map (\<lambda>r. the (line_p0 c organizationId batchId classId r)) (filter recognized options))))
         JNull"
proof -
  have a: "lines_lib organizationId batchId classId options =
     lines_lib organizationId batchId classId (filter recognized options)"
    by (simp add: lines_lib_filter [of _ _ _ options]
        lines_lib_filter [of _ _ _ "filter recognized options"])
  have b: "lines_p0 c organizationId batchId classId options =
       lines_p0 c organizationId batchId classId (filter recognized options)"
    by (simp add: lines_p0_filter [of _ _ _ _ options]
        lines_p0_filter [of _ _ _ _ "filter recognized options"])
  have la: "length (lines_lib organizationId batchId classId options) =
      length (filter recognized options)"
    by (simp add: lines_lib_filter)
  have lb: "length (lines_p0 c organizationId batchId classId options) =
      length (filter recognized options)"
    by (simp add: lines_p0_filter)
  have ca: "createCRE_lib axios cl organizationId batchId classId options =
       createCRE_lib axios cl organizationId batchId classId (filter recognized options)"
    using a by (simp add: createCRE_lib_def body_lib_def)
  have cb: "createCRE_p0 axios c organizationId batchId classId options =
       createCRE_p0 axios c organizationId batchId classId (filter recognized options)"
    using b by (simp add: createCRE_p0_def body_p0_def)
  note ba = body_lib_recognized [of organizationId batchId classId options]
  note bb = body_p0_recognized [of c organizationId batchId classId options]
  have da: "createCRE_lib axios cl organizationId batchId classId options =
       post_lib axios cl ''/cre'' JNull
         (JStr (intersperse CRLF
           (map (\<lambda>r. the (line_lib organizationId batchId classId r)) (filter recognized options))))
         JNull"
    by (simp only: createCRE_lib_def ba)
  have db: "createCRE_p0 axios c organizationId batchId classId options =
       post_p0 axios c ''/cre'' JNull
         (JStr (intersperse LF
           (map (\<lambda>r. the (line_p0 c organizationId batchId classId r)) (filter recognized options))))
         JNull"
    by (simp only: createCRE_p0_def bb)
  note na = line_lib_None [of organizationId batchId classId r]
  note nb = line_p0_None [of c organizationId batchId classId r]
  from na nb a la ca b lb cb ba bb da db show ?thesis by blast
qed

theorem unrecognized_records_skipped_witness:
  "\<not> recognized sample_unknown
   \<and> line_p0 sample_client_p0 (JStr ''ORG1'') (JNum 12) (JNum 34) sample_unknown = None
   \<and> length (lines_p0 sample_client_p0 (JStr ''ORG1'') (JNum 12) (JNum 34)
        [sample_unknown, sample_instructor, sample_unknown, sample_student]) = 2
   \<and> length (lines_lib (JStr ''ORG1'') (JNum 12) (JNum 34)
        [sample_unknown, sample_instructor, sample_unknown, sample_student]) = 2
   \<and> body_p0 sample_client_p0 (JStr ''ORG1'') (JNum 12) (JNum 34)
        [sample_unknown, sample_instructor, sample_unknown, sample_student] =
       ''ORG1|12|34|B|I-100|Ann|Lee|ann@example.org'' @ LF @
       ''ORG1|12|34|C|Bob|Ray|bob@example.org|5550100|Successful|''
   \<and> body_lib (JStr ''ORG1'') (JNum 12) (JNum 34)
        [sample_unknown, sample_instructor, sample_unknown, sample_student] =
       ''ORG1|12|34|A|I-100|Ann|Lee|ann@example.org'' @ CRLF @
       ''ORG1|12|34|A|Bob|Ray|bob@example.org|5550100|Successful|''"
proof -
  let ?batch = "[sample_unknown, sample_instructor, sample_unknown, sample_student]"
  have u: "\<not> recognized sample_unknown"
    by (simp add: recognized_def sample_unknown_def getprop_def ORGANIZATION_def
        INSTRUCTOR_def STUDENT_def)
  have i: "recognized sample_instructor"
    by (simp add: recognized_def sample_instructor_def getprop_def ORGANIZATION_def
        INSTRUCTOR_def STUDENT_def)
  have st: "recognized sample_student"
    by (simp add: recognized_def sample_student_def getprop_def ORGANIZATION_def
        INSTRUCTOR_def STUDENT_def)
  from u i st have f: "filter recognized ?batch = [sample_instructor, sample_student]"
    by simp
  have ip: "the (line_p0 sample_client_p0 (JStr ''ORG1'') (JNum 12) (JNum 34) sample_instructor) =
      ''ORG1|12|34|B|I-100|Ann|Lee|ann@example.org''"
    and sp: "the (line_p0 sample_client_p0 (JStr ''ORG1'') (JNum 12) (JNum 34) sample_student) =
      ''ORG1|12|34|C|Bob|Ray|bob@example.org|5550100|Successful|''"
    and il: "the (line_lib (JStr ''ORG1'') (JNum 12) (JNum 34) sample_instructor) =
      ''ORG1|12|34|A|I-100|Ann|Lee|ann@example.org''"
    and sl: "the (line_lib (JStr ''ORG1'') (JNum 12) (JNum 34) sample_student) =
      ''ORG1|12|34|A|Bob|Ray|bob@example.org|5550100|Successful|''"
    by (simp_all add: sample_defs client_defs serial_defs)
  note skipped = unrecognized_records_skipped [of "JStr ''ORG1''" "JNum 12" "JNum 34"
      sample_unknown sample_client_p0 ?batch]
  from skipped
  have n: "(line_p0 sample_client_p0 (JStr ''ORG1'') (JNum 12) (JNum 34) sample_unknown = None) =
      (\<not> recognized sample_unknown)"
    by (rule conjunct2 [THEN conjunct1])
  from skipped
  have lp: "length (lines_p0 sample_client_p0 (JStr ''ORG1'') (JNum 12) (JNum 34) ?batch) =
      length (filter recognized ?batch)"
    by blast
  from skipped
  have ll: "length (lines_lib (JStr ''ORG1'') (JNum 12) (JNum 34) ?batch) =
      length (filter recognized ?batch)"
    by blast
  from skipped
  have bp: "body_p0 sample_client_p0 (JStr ''ORG1'') (JNum 12) (JNum 34) ?batch =
      intersperse LF
        (map (\<lambda>r. the (line_p0 sample_client_p0 (JStr ''ORG1'') (JNum 12) (JNum 34) r))
          (filter recognized ?batch))"
    by blast
  from skipped
  have bl: "body_lib (JStr ''ORG1'') (JNum 12) (JNum 34) ?batch =
      intersperse CRLF
        (map (\<lambda>r. the (line_lib (JStr ''ORG1'') (JNum 12) (JNum 34) r))
          (filter recognized ?batch))"
    by blast
  from u n have none: "line_p0 sample_client_p0 (JStr ''ORG1'') (JNum 12) (JNum 34) sample_unknown = None"
    by blast
  from lp f have lp2: "length (lines_p0 sample_client_p0 (JStr ''ORG1'') (JNum 12) (JNum 34) ?batch) = 2"
    by simp
  from ll f have ll2: "length (lines_lib (JStr ''ORG1'') (JNum 12) (JNum 34) ?batch) = 2"
    by simp
  from bp have bp2: "body_p0 sample_client_p0 (JStr ''ORG1'') (JNum 12) (JNum 34) ?batch =
       ''ORG1|12|34|B|I-100|Ann|Lee|ann@example.org'' @ LF @
       ''ORG1|12|34|C|Bob|Ray|bob@example.org|5550100|Successful|''"
    by (simp only: f list.map intersperse.simps ip sp)
  from bl have bl2: "body_lib (JStr ''ORG1'') (JNum 12) (JNum 34) ?batch =
       ''ORG1|12|34|A|I-100|Ann|Lee|ann@example.org'' @ CRLF @
       ''ORG1|12|34|A|Bob|Ray|bob@example.org|5550100|Successful|''"
    by (simp only: f list.map intersperse.simps il sl)
  from u none lp2 ll2 bp2 bl2 show ?thesis by blast
qed

text \<open>
  In \<^verbatim>\<open>src/unnamed/part_000\<close> a line is written for a recognized record only,
  and it begins with the three identifiers and the discriminant of that record.
\<close>

lemma line_p0_begins_with_discriminant:
  assumes "line_p0 c organizationId batchId classId r = Some l"
  shows "recognized r \<and>
    (\<exists>rest. l = join [organizationId, batchId, classId, getprop r ''type''] DELIMITER
        @ DELIMITER @ rest)"
proof -
  from assms have rec: "recognized r"
    using line_p0_None [of c organizationId batchId classId r] by auto
  from rec assms
  have "\<exists>rest. l = join [organizationId, batchId, classId, getprop r ''type''] DELIMITER
        @ DELIMITER @ rest"
    by (auto simp: recognized_def line_p0_def join_def split: if_splits)
  with rec show ?thesis by blast
qed

lemma lines_p0_from_records:
  assumes "l \<in> set (lines_p0 c organizationId batchId classId options)"
  shows "\<exists>r \<in> set options. line_p0 c organizationId batchId classId r = Some l"
proof -
  from assms obtain r where r: "r \<in> set options" "recognized r"
    and l: "l = the (line_p0 c organizationId batchId classId r)"
    by (auto simp: lines_p0_filter)
  from r(2) have "line_p0 c organizationId batchId classId r \<noteq> None"
    by (simp add: line_p0_None)
  with l have "line_p0 c organizationId batchId classId r = Some l" by auto
  with r(1) show ?thesis by blast
qed

text \<open>
  Claim C1. Every serialized line begins with organizationId, batchId, classId and the
  record type code of its own record (\<open>'A'\<close> Organization, \<open>'B'\<close> Instructor,
  \<open>'C'\<close> Student), followed by the fields of that kind of record.
  \<^verbatim>\<open>src/unnamed/part_000\<close> does so, as the two lemmas above say.
  \<^verbatim>\<open>src/lib/ArcCre.js\<close> writes \<open>RECORD_TYPES.ORGANIZATION\<close> in all three cases
  of its \<open>switch\<close>: the line of an Instructor record and the line of a Student record
  carry \<open>'A'\<close> in the fourth column.
\<close>

theorem lib_lines_carry_organization_code:
  "getprop sample_instructor ''type'' = JStr INSTRUCTOR
   \<and> getprop sample_student ''type'' = JStr STUDENT
   \<and> lines_lib (JStr ''ORG1'') (JNum 12) (JNum 34) [sample_instructor, sample_student] =
     [''ORG1|12|34|A|I-100|Ann|Lee|ann@example.org'',
      ''ORG1|12|34|A|Bob|Ray|bob@example.org|5550100|Successful|'']"
  by (simp add: sample_defs client_defs serial_defs)

text \<open>
  The body that \<^verbatim>\<open>src/unnamed/part_000\<close> dispatches for one Organization, one
  Instructor and one Student record: the documented columns, joined by \<open>|\<close>, one line
  for each record, the lines joined by \<open>\n\<close>.
\<close>

lemma createCRE_p0_fixture:
  "createCRE_p0 axios_echo_data sample_client_p0 (JStr ''ORG1'') (JNum 12) (JNum 34)
      [sample_organization, sample_instructor, sample_student] =
    (None, Inr (JStr
      (''ORG1|12|34|A|ORG1|LMS|PO-77|SKU-9|2020-01-15|2020-01-16|1|Main Hall|1 Elm St|Austin|TX|78701''
       @ LF @ ''ORG1|12|34|B|I-100|Ann|Lee|ann@example.org''
       @ LF @ ''ORG1|12|34|C|Bob|Ray|bob@example.org|5550100|Successful|'')))"
  by (simp add: sample_defs client_defs serial_defs request_defs)

text \<open>
  Claim C2. For one Organization, one Instructor and one Student record with known
  fields the dispatched body is the expected text, each line with the columns
  documented for its kind of record. \<^verbatim>\<open>src/unnamed/part_000\<close> sends that text
  (the lemma above). \<^verbatim>\<open>src/lib/ArcCre.js\<close> sends the text below, whose second
  and third line carry the code \<open>'A'\<close> where the documented layout has \<open>'B'\<close> and
  \<open>'C'\<close>.
\<close>

theorem createCRE_lib_fixture:
  "createCRE_lib axios_echo_data sample_client_lib (JStr ''ORG1'') (JNum 12) (JNum 34)
      [sample_organization, sample_instructor, sample_student] =
    Inr (JStr
      (''ORG1|12|34|A|Acme Training|PO-77|SKU-9|2020-01-15|2020-01-16|1|Main Hall|1 Elm St|Austin|TX|78701''
       @ CRLF @ ''ORG1|12|34|A|I-100|Ann|Lee|ann@example.org''
       @ CRLF @ ''ORG1|12|34|A|Bob|Ray|bob@example.org|5550100|Successful|''))"
  by (simp add: sample_defs client_defs serial_defs request_defs)

section \<open>Built URLs\<close>

lemma normalize_endpoint_idem: "normalize_endpoint (normalize_endpoint e) = normalize_endpoint e"
  by (simp add: normalize_endpoint_def)

lemma buildApiUrl_normalized:
  "buildApiUrl_lib cl (normalize_endpoint e) = buildApiUrl_lib cl e
   \<and> buildApiUrl_p0 c (normalize_endpoint e) = buildApiUrl_p0 c e"
  by (simp add: buildApiUrl_lib_def buildApiUrl_p0_def buildPath_p0_def normalize_endpoint_idem)

text \<open>
  Claim C8. For every client of either implementation, the URL built from the endpoint
  \<open>cre\<close> and the URL built from \<open>/cre\<close> are the same string.
\<close>

theorem buildApiUrl_leading_separator:
  "buildApiUrl_lib cl ''cre'' = buildApiUrl_lib cl ''/cre''
   \<and> buildApiUrl_p0 c ''cre'' = buildApiUrl_p0 c ''/cre''"
  by (simp add: buildApiUrl_lib_def buildApiUrl_p0_def buildPath_p0_def normalize_endpoint_def)

text \<open>
  Claim C9, amended. The constructor reads the version as
  \<open>options.apiVersion || options.version || 1\<close>. When both \<open>apiVersion\<close> and
  \<open>version\<close> are omitted, every built URL embeds version 1, in both implementations.
  When \<open>protocol\<close> is omitted, every URL built by \<^verbatim>\<open>src/unnamed/part_000\<close>
  begins with \<open>https://\<close>; \<^verbatim>\<open>src/lib/ArcCre.js\<close> has no such option and always
  builds \<open>https://\<close>. A client constructed without options builds the URL of the
  default host with version 1.
\<close>

theorem defaults_in_built_url:
  "(getprop options ''apiVersion'' = JUndefined \<and> getprop options ''version'' = JUndefined \<longrightarrow>
      buildApiUrl_p0 (ArcCre_p0 (Some options) lg) endpoint =
        buildScheme_p0 (ArcCre_p0 (Some options) lg) @ ''/course/recordentry/eapi/v1''
          @ normalize_endpoint endpoint
      \<and> buildApiUrl_lib (ArcCre_lib (Some options)) endpoint =
        ''https://'' @ to_string (host (ArcCre_lib (Some options))) @ ''/v1''
          @ normalize_endpoint endpoint)
   \<and> (getprop options ''protocol'' = JUndefined \<longrightarrow>
        take 8 (buildApiUrl_p0 (ArcCre_p0 (Some options) lg) endpoint) = ''https://'')
   \<and> take 8 (buildApiUrl_lib cl endpoint) = ''https://''
   \<and> buildApiUrl_p0 (ArcCre_p0 None lg) endpoint =
        ''https://'' @ default_host @ ''/course/recordentry/eapi/v1'' @ normalize_endpoint endpoint
   \<and> buildApiUrl_lib (ArcCre_lib None) endpoint =
        ''https://'' @ default_host @ ''/v1'' @ normalize_endpoint endpoint"
proof -
  have one: "digits 1 = ''1''" "digits (Suc 0) = ''1''"
    by (simp_all add: digits.simps digit_char_def)
  have a: "getprop options ''apiVersion'' = JUndefined \<and> getprop options ''version'' = JUndefined \<longrightarrow>
      buildApiUrl_p0 (ArcCre_p0 (Some options) lg) endpoint =
        buildScheme_p0 (ArcCre_p0 (Some options) lg) @ ''/course/recordentry/eapi/v1''
          @ normalize_endpoint endpoint
      \<and> buildApiUrl_lib (ArcCre_lib (Some options)) endpoint =
        ''https://'' @ to_string (host (ArcCre_lib (Some options))) @ ''/v1''
          @ normalize_endpoint endpoint"
    by (simp add: buildApiUrl_p0_def buildPath_p0_def buildApiUrl_lib_def ArcCre_p0_def
        ArcCre_lib_def js_or_def one)
  have b: "getprop options ''protocol'' = JUndefined \<longrightarrow>
        take 8 (buildApiUrl_p0 (ArcCre_p0 (Some options) lg) endpoint) = ''https://''"
    by (simp add: buildApiUrl_p0_def buildScheme_p0_def ArcCre_p0_def js_or_def)
  have c: "take 8 (buildApiUrl_lib cl endpoint) = ''https://''"
    by (simp add: buildApiUrl_lib_def)
  have d: "buildApiUrl_p0 (ArcCre_p0 None lg) endpoint =
        ''https://'' @ default_host @ ''/course/recordentry/eapi/v1'' @ normalize_endpoint endpoint"
    by (simp add: buildApiUrl_p0_def buildPath_p0_def buildScheme_p0_def ArcCre_p0_def js_or_def
        getprop_def one)
  have e: "buildApiUrl_lib (ArcCre_lib None) endpoint =
        ''https://'' @ default_host @ ''/v1'' @ normalize_endpoint endpoint"
    by (simp add: buildApiUrl_lib_def ArcCre_lib_def js_or_def getprop_def one)
  from a b c d e show ?thesis by blast
qed

theorem defaults_in_built_url_witness:
  "getprop sample_options ''apiVersion'' = JUndefined
   \<and> getprop sample_options ''version'' = JUndefined
   \<and> getprop sample_options ''protocol'' = JUndefined
   \<and> buildApiUrl_p0 (ArcCre_p0 (Some sample_options) None) ''ping'' =
       buildScheme_p0 (ArcCre_p0 (Some sample_options) None) @ ''/course/recordentry/eapi/v1/ping''
   \<and> buildApiUrl_lib (ArcCre_lib (Some sample_options)) ''ping'' = ''https://cre.example.org/v1/ping''
   \<and> take 8 (buildApiUrl_p0 (ArcCre_p0 (Some sample_options) None) ''ping'') = ''https://''"
proof -
  have h: "getprop sample_options ''apiVersion'' = JUndefined"
    "getprop sample_options ''version'' = JUndefined"
    "getprop sample_options ''protocol'' = JUndefined"
    by (simp_all add: sample_options_def getprop_def)
  have n: "normalize_endpoint ''ping'' = ''/ping''"
    by (simp add: normalize_endpoint_def)
  have hst: "to_string (host (ArcCre_lib (Some sample_options))) = ''cre.example.org''"
    by (simp add: ArcCre_lib_def sample_options_def getprop_def js_or_def)
  from defaults_in_built_url [of sample_options None "''ping''"] h
  have A: "buildApiUrl_p0 (ArcCre_p0 (Some sample_options) None) ''ping'' =
        buildScheme_p0 (ArcCre_p0 (Some sample_options) None) @ ''/course/recordentry/eapi/v1''
          @ normalize_endpoint ''ping''"
    and B: "buildApiUrl_lib (ArcCre_lib (Some sample_options)) ''ping'' =
        ''https://'' @ to_string (host (ArcCre_lib (Some sample_options))) @ ''/v1''
          @ normalize_endpoint ''ping''"
    and C: "take 8 (buildApiUrl_p0 (ArcCre_p0 (Some sample_options) None) ''ping'') = ''https://''"
    by blast+
  from A have A': "buildApiUrl_p0 (ArcCre_p0 (Some sample_options) None) ''ping'' =
       buildScheme_p0 (ArcCre_p0 (Some sample_options) None) @ ''/course/recordentry/eapi/v1/ping''"
    by (simp add: n)
  from B have B': "buildApiUrl_lib (ArcCre_lib (Some sample_options)) ''ping'' =
       ''https://cre.example.org/v1/ping''"
    by (simp add: n hst)
  from h A' B' C show ?thesis by blast
qed

text \<open>
  The claim as first stated, with only \<open>apiVersion\<close> omitted, fails: a client
  constructed with \<open>{ version: 2 }\<close> builds URLs of version 2.
\<close>

theorem version_option_counterexample:
  "getprop [(''version'', JNum 2)] ''apiVersion'' = JUndefined
   \<and> buildApiUrl_p0 (ArcCre_p0 (Some [(''version'', JNum 2)]) None) ''/ping'' =
     ''https://arc-course-record-entry-sf-eapi-qa.us-e1.cloudhub.io/course/recordentry/eapi/v2/ping''
   \<and> buildApiUrl_lib (ArcCre_lib (Some [(''version'', JNum 2)])) ''/ping'' =
     ''https://arc-course-record-entry-sf-eapi-qa.us-e1.cloudhub.io/v2/ping''"
  by (simp add: client_defs)

section \<open>Default headers\<close>

text \<open>
  \<^verbatim>\<open>src/unnamed/part_000\<close> first replaces absent headers by an empty object, so the
  defaults always reach the dispatched request: all four of them when the caller gave
  no headers, and otherwise each default whose name the caller left \<open>undefined\<close>,
  while every header the caller set keeps the caller's value.
\<close>

lemma request_config_p0_headers_absent:
  assumes "headers cfg = JUndefined \<or> headers cfg = JNull"
  shows "headers (request_config_p0 c ep cfg) = JObj (defaultHeaders c)"
  using assms
  by (auto simp: request_config_p0_def Let_def js_or_def lodash_defaults_def defaults_obj_def
      defaultHeaders_def assign_default_def getprop_def)

lemma request_config_p0_headers_merged:
  assumes "headers cfg = JObj h"
  shows "\<exists>h'. headers (request_config_p0 c ep cfg) = JObj h' \<and>
    (\<forall>k. getprop h' k =
      (if getprop h k = JUndefined then getprop (defaultHeaders c) k else getprop h k))"
proof -
  from assms
  have "headers (request_config_p0 c ep cfg) = JObj (defaults_obj h (defaultHeaders c))"
    by (auto simp: request_config_p0_def Let_def js_or_def lodash_defaults_def)
  then show ?thesis by (simp add: getprop_defaults_obj)
qed

lemma operations_p0_default_headers:
  "headers (request_config_p0 c ep (get_config_p0 JUndefined JUndefined)) = JObj (defaultHeaders c)
   \<and> headers (request_config_p0 c ep (post_config_p0 JNull body JNull)) = JObj (defaultHeaders c)"
  by (simp add: request_config_p0_headers_absent get_config_p0_def post_config_p0_def)

text \<open>
  \<^verbatim>\<open>src/lib/ArcCre.js\<close> passes \<open>config.headers\<close> to \<open>_.defaults\<close> as it is.
  An object given to \<open>_get\<close> or \<open>_post\<close> is filled; absent headers stay absent.
\<close>

lemma request_config_lib_headers_merged:
  assumes "headers cfg = JObj h"
  shows "headers (request_config_lib cl cfg) = JObj (defaults_obj h (defaultHeaders cl))"
  using assms by (simp add: request_config_lib_def lodash_defaults_def)

lemma request_config_lib_headers_absent:
  assumes "headers cfg = JUndefined \<or> headers cfg = JNull"
  shows "headers (request_config_lib cl cfg) = headers cfg"
  using assms by (auto simp: request_config_lib_def lodash_defaults_def)

text \<open>
  Claim C3. On every outgoing request of the three operations the default headers
  \<open>client_id\<close>, \<open>client_secret\<close>, \<open>Content-Type\<close> and \<open>source_system\<close> are
  in the dispatched request unless the caller supplied a header of the same name.
  \<^verbatim>\<open>src/unnamed/part_000\<close> does so (the lemmas above). In
  \<^verbatim>\<open>src/lib/ArcCre.js\<close> the three operations call \<open>_get\<close> and \<open>_post\<close>
  without headers (\<open>undefined\<close>, \<open>null\<close>), and \<open>_request\<close> hands that value to
  \<open>_.defaults\<close>: the request is dispatched with no headers of the client at all.
  A transport that returns the headers it received shows it.
\<close>

theorem lib_operations_dispatch_no_headers:
  "ping_lib axios_echo_headers sample_client_lib = Inr JUndefined
   \<and> getCRE_lib axios_echo_headers sample_client_lib (JStr ''OFF-1'') = Inr JUndefined
   \<and> createCRE_lib axios_echo_headers sample_client_lib (JStr ''ORG1'') (JNum 12) (JNum 34)
        [sample_instructor] = Inr JNull"
  by (simp add: sample_defs request_defs)

section \<open>Failures of the transport\<close>

lemma url_request_config_lib: "url (request_config_lib cl cfg) = url cfg"
  by (simp add: request_config_lib_def)

lemma request_lib_with_response:
  assumes "axios (request_config_lib cl cfg) = Inl e" and "err_response e = Some r"
  shows "request_lib axios cl cfg =
     Inl (Error \<lparr> message = digits (status r) @ '' - '' @ to_string (url cfg) @ '' failed'',
                  response = None, code = JNum (int (status r)), meta = res_data r \<rparr>)"
  using assms by (simp add: request_lib_def Let_def url_request_config_lib)

lemma request_lib_no_response:
  assumes "axios (request_config_lib cl cfg) = Inl e" and "err_response e = None"
  shows "request_lib axios cl cfg =
     Inl (TypeError ''Cannot read properties of undefined (reading status)'')"
  using assms by (simp add: request_lib_def Let_def)

lemma request_p0_rethrows:
  assumes "axios (request_config_p0 c ep cfg) = Inl e" and "err_response e = Some r"
    and "status r \<noteq> 404"
    and "writeLog_p0 c ep (request_config_p0 c ep cfg) r (JStr ''error'') = Inr w"
  shows "request_p0 axios c ep cfg = (w, Inl e)"
  using assms by (simp add: request_p0_def Let_def)

lemma request_p0_not_found:
  assumes "axios (request_config_p0 c ep cfg) = Inl e" and "err_response e = Some r"
    and "status r = 404"
    and "writeLog_p0 c ep (request_config_p0 c ep cfg) r (JStr ''error'') = Inr w"
  shows "request_p0 axios c ep cfg = (w, Inr JNull)"
  using assms by (simp add: request_p0_def Let_def)

lemma request_p0_log_fails:
  assumes "axios (request_config_p0 c ep cfg) = Inl e" and "err_response e = Some r"
    and "writeLog_p0 c ep (request_config_p0 c ep cfg) r (JStr ''error'') = Inl t"
  shows "request_p0 axios c ep cfg = (None, Inl t)"
  using assms by (simp add: request_p0_def Let_def)

lemma request_p0_no_response:
  assumes "axios (request_config_p0 c ep cfg) = Inl e" and "err_response e = None"
  shows "request_p0 axios c ep cfg = (None, Inl e)"
  using assms by (simp add: request_p0_def Let_def)

lemma writeLog_p0_no_logger: "logger c = None \<Longrightarrow> writeLog_p0 c ep cfg r lvl = Inr None"
  by (simp add: writeLog_p0_def)

lemma writeLog_p0_configured:
  assumes "logger c = Some lg" and "loggerConfig c = JObj t" and "to_string lvl \<in> set lg"
  shows "\<exists>parts. writeLog_p0 c ep cfg r lvl = Inr (Some (to_string lvl, parts))"
  using assms by (simp add: writeLog_p0_def Let_def)

lemma writeLog_p0_without_loggerConfig:
  assumes "logger c = Some lg" and "loggerConfig c = JUndefined \<or> loggerConfig c = JNull"
  shows "writeLog_p0 c ep cfg r lvl =
    Inl (TypeError ''Cannot read properties of undefined (reading url)'')"
  using assms by (auto simp: writeLog_p0_def)

text \<open>
  In \<^verbatim>\<open>src/unnamed/part_000\<close> an error of the transport that carries no response
  leaves every operation as it came, and nothing is logged.
\<close>

lemma operations_p0_propagate:
  assumes "\<And>cfg. axios cfg = Inl e" and "err_response e = None"
  shows "ping_p0 axios c = (None, Inl e)
    \<and> getCRE_p0 axios c offeringId = (None, Inl e)
    \<and> createCRE_p0 axios c organizationId batchId classId options = (None, Inl e)"
  using assms
  by (simp add: ping_p0_def getCRE_p0_def createCRE_p0_def get_p0_def post_p0_def
      request_p0_no_response)

text \<open>
  Claim C4. When the transport fails without an upstream response, every operation
  propagates that same error, unchanged. \<^verbatim>\<open>src/unnamed/part_000\<close> does so (the
  lemma above). The \<open>catch\<close> block of \<^verbatim>\<open>src/lib/ArcCre.js\<close> reads
  \<open>e.response.status\<close> without looking whether \<open>e.response\<close> is there: after a
  timeout every operation rejects with a \<open>TypeError\<close> of its own, and the error of
  the transport is lost.
\<close>

theorem lib_operations_timeout_type_error:
  "err_response timeout_error = None
   \<and> ping_lib axios_timeout sample_client_lib =
       Inl (TypeError ''Cannot read properties of undefined (reading status)'')
   \<and> getCRE_lib axios_timeout sample_client_lib (JStr ''OFF-1'') =
       Inl (TypeError ''Cannot read properties of undefined (reading status)'')
   \<and> createCRE_lib axios_timeout sample_client_lib (JStr ''ORG1'') (JNum 12) (JNum 34)
        [sample_instructor] =
       Inl (TypeError ''Cannot read properties of undefined (reading status)'')"
  by (simp add: sample_defs request_defs)

text \<open>
  Claim C5, amended. When the transport rejects with an error that carries the
  upstream response: \<^verbatim>\<open>src/lib/ArcCre.js\<close> raises a new error whose \<open>code\<close> is
  the upstream status, whose \<open>meta\<close> is the upstream body and whose message,
  \<open><status> - <url> failed\<close>, includes the URL of the request;
  \<^verbatim>\<open>src/unnamed/part_000\<close>, when the status is not 404 and the log line is
  written, raises the error of the transport itself, unchanged: it carries the
  upstream response with its status and body, and its message is the transport's.
\<close>

theorem upstream_error_surfaced:
  "(axios (request_config_lib cl cfg) = Inl e \<and> err_response e = Some r \<longrightarrow>
      request_lib axios cl cfg =
        Inl (Error \<lparr> message = digits (status r) @ '' - '' @ to_string (url cfg) @ '' failed'',
                     response = None, code = JNum (int (status r)), meta = res_data r \<rparr>)
      \<and> str_includes (digits (status r) @ '' - '' @ to_string (url cfg) @ '' failed'')
            (to_string (url (request_config_lib cl cfg))))
   \<and> (axios (request_config_p0 c ep cfg') = Inl e \<and> err_response e = Some r \<and> status r \<noteq> 404
        \<and> writeLog_p0 c ep (request_config_p0 c ep cfg') r (JStr ''error'') = Inr w \<longrightarrow>
      request_p0 axios c ep cfg' = (w, Inl e))"
proof -
  have inc: "str_includes (digits (status r) @ '' - '' @ to_string (url cfg) @ '' failed'')
      (to_string (url (request_config_lib cl cfg)))"
    using str_includes_infix [of "digits (status r) @ '' - ''" "to_string (url cfg)" "'' failed''"]
    by (simp add: url_request_config_lib)
  have lib: "axios (request_config_lib cl cfg) = Inl e \<and> err_response e = Some r \<longrightarrow>
      request_lib axios cl cfg =
        Inl (Error \<lparr> message = digits (status r) @ '' - '' @ to_string (url cfg) @ '' failed'',
                     response = None, code = JNum (int (status r)), meta = res_data r \<rparr>)"
    using request_lib_with_response [of axios cl cfg e r] by blast
  have p0: "axios (request_config_p0 c ep cfg') = Inl e \<and> err_response e = Some r \<and> status r \<noteq> 404
        \<and> writeLog_p0 c ep (request_config_p0 c ep cfg') r (JStr ''error'') = Inr w \<longrightarrow>
      request_p0 axios c ep cfg' = (w, Inl e)"
    using request_p0_rethrows [of axios c ep cfg' e r w] by blast
  from inc lib p0 show ?thesis by blast
qed

theorem upstream_error_surfaced_witness:
  "axios_status 500 ''Internal Server Error''
      (request_config_lib sample_client_lib
        (get_config_lib sample_client_lib ''/ping'' JUndefined JUndefined)) =
     Inl (status_error 500 ''Internal Server Error'')
   \<and> err_response (status_error 500 ''Internal Server Error'') =
       Some (upstream_response 500 ''Internal Server Error'')
   \<and> ping_lib (axios_status 500 ''Internal Server Error'') sample_client_lib =
       Inl (Error \<lparr> message = ''500 - https://cre.example.org/v1/ping failed'', response = None,
                    code = JNum 500, meta = JStr ''upstream says no'' \<rparr>)
   \<and> axios_status 500 ''Internal Server Error''
      (request_config_p0 sample_client_p0 ''/ping'' (get_config_p0 JUndefined JUndefined)) =
     Inl (status_error 500 ''Internal Server Error'')
   \<and> status (upstream_response 500 ''Internal Server Error'') \<noteq> 404
   \<and> writeLog_p0 sample_client_p0 ''/ping''
        (request_config_p0 sample_client_p0 ''/ping'' (get_config_p0 JUndefined JUndefined))
        (upstream_response 500 ''Internal Server Error'') (JStr ''error'') = Inr None
   \<and> ping_p0 (axios_status 500 ''Internal Server Error'') sample_client_p0 =
       (None, Inl (status_error 500 ''Internal Server Error''))"
proof -
  let ?ax = "axios_status 500 ''Internal Server Error''"
  let ?e = "status_error 500 ''Internal Server Error''"
  let ?r = "upstream_response 500 ''Internal Server Error''"
  have h1: "?ax (request_config_lib sample_client_lib
      (get_config_lib sample_client_lib ''/ping'' JUndefined JUndefined)) = Inl ?e"
    by (simp add: axios_status_def)
  have h2: "err_response ?e = Some ?r"
    by (simp add: status_error_def)
  have h3: "?ax (request_config_p0 sample_client_p0 ''/ping''
      (get_config_p0 JUndefined JUndefined)) = Inl ?e"
    by (simp add: axios_status_def)
  have h4: "status ?r \<noteq> 404"
    by (simp add: upstream_response_def)
  have h5: "writeLog_p0 sample_client_p0 ''/ping''
        (request_config_p0 sample_client_p0 ''/ping'' (get_config_p0 JUndefined JUndefined))
        ?r (JStr ''error'') = Inr None"
    by (simp add: writeLog_p0_def sample_client_p0_def ArcCre_p0_def)
  have msg: "digits (status ?r) @ '' - '' @
      to_string (url (get_config_lib sample_client_lib ''/ping'' JUndefined JUndefined)) @ '' failed'' =
      ''500 - https://cre.example.org/v1/ping failed''"
    by (simp add: sample_defs client_defs get_config_lib_def)
  have r: "int (status ?r) = 500" "res_data ?r = JStr ''upstream says no''"
    by (simp_all add: upstream_response_def)
  from upstream_error_surfaced [of ?ax sample_client_lib
      "get_config_lib sample_client_lib ''/ping'' JUndefined JUndefined"
      ?e ?r sample_client_p0 "''/ping''" "get_config_p0 JUndefined JUndefined" None]
    h1 h2 h3 h4 h5
  have "request_lib ?ax sample_client_lib
          (get_config_lib sample_client_lib ''/ping'' JUndefined JUndefined) =
        Inl (Error \<lparr> message = digits (status ?r) @ '' - '' @
              to_string (url (get_config_lib sample_client_lib ''/ping'' JUndefined JUndefined))
                @ '' failed'',
            response = None, code = JNum (int (status ?r)), meta = res_data ?r \<rparr>)"
    and "request_p0 ?ax sample_client_p0 ''/ping'' (get_config_p0 JUndefined JUndefined) =
        (None, Inl ?e)"
    by blast+
  then have "ping_lib ?ax sample_client_lib =
       Inl (Error \<lparr> message = ''500 - https://cre.example.org/v1/ping failed'', response = None,
                    code = JNum 500, meta = JStr ''upstream says no'' \<rparr>)"
    and "ping_p0 ?ax sample_client_p0 = (None, Inl ?e)"
    by (simp_all only: ping_lib_def get_lib_def ping_p0_def get_p0_def msg r)
  with h1 h2 h3 h4 h5 show ?thesis by blast
qed

text \<open>
  The claim as first stated fails on \<^verbatim>\<open>src/unnamed/part_000\<close>: after a 500 the
  caller of \<open>ping\<close> receives the error of the transport, and its message does not
  include the URL of the request.
\<close>

theorem rethrown_message_counterexample:
  "ping_p0 (axios_status 500 ''Internal Server Error'') sample_client_p0 =
     (None, Inl (status_error 500 ''Internal Server Error''))
   \<and> status_error 500 ''Internal Server Error'' =
       Error \<lparr> message = ''Request failed with status code 500'',
               response = Some (upstream_response 500 ''Internal Server Error''),
               code = JStr ''ERR_BAD_RESPONSE'', meta = JUndefined \<rparr>
   \<and> url (request_config_p0 sample_client_p0 ''/ping'' (get_config_p0 JUndefined JUndefined)) =
       JStr ''https://cre.example.org/course/recordentry/eapi/v1/ping''
   \<and> \<not> str_includes ''Request failed with status code 500''
         ''https://cre.example.org/course/recordentry/eapi/v1/ping''"
  by (simp add: sample_defs request_defs client_defs)

section \<open>Not found\<close>

text \<open>
  In \<^verbatim>\<open>src/unnamed/part_000\<close> the conversion of a 404 to \<open>null\<close> stands in
  \<open>_request\<close>, after the call of \<open>_writeLog\<close>. With no logger, and with a logger
  whose configuration is an object and which has the method \<open>error\<close>, every operation
  resolves to \<open>null\<close> when the upstream answers 404.
\<close>

lemma operations_p0_not_found_no_logger:
  assumes "\<And>cfg. axios cfg = Inl e" and "err_response e = Some r" and "status r = 404"
    and "logger c = None"
  shows "ping_p0 axios c = (None, Inr JNull)
    \<and> getCRE_p0 axios c offeringId = (None, Inr JNull)
    \<and> createCRE_p0 axios c organizationId batchId classId options = (None, Inr JNull)"
proof -
  have "request_p0 axios c ep cfg = (None, Inr JNull)" for ep cfg
    using assms by (simp add: request_p0_not_found writeLog_p0_no_logger)
  then show ?thesis
    by (simp add: ping_p0_def getCRE_p0_def createCRE_p0_def get_p0_def post_p0_def)
qed

lemma operations_p0_not_found_logged:
  assumes "\<And>cfg. axios cfg = Inl e" and "err_response e = Some r" and "status r = 404"
    and "logger c = Some lg" and "loggerConfig c = JObj t" and "''error'' \<in> set lg"
  shows "snd (ping_p0 axios c) = Inr JNull
    \<and> snd (getCRE_p0 axios c offeringId) = Inr JNull
    \<and> snd (createCRE_p0 axios c organizationId batchId classId options) = Inr JNull"
proof -
  have "snd (request_p0 axios c ep cfg) = Inr JNull" for ep cfg
  proof -
    from assms(4-6) obtain parts
      where "writeLog_p0 c ep (request_config_p0 c ep cfg) r (JStr ''error'') =
        Inr (Some (to_string (JStr ''error''), parts))"
      using writeLog_p0_configured [of c lg t "JStr ''error''" ep "request_config_p0 c ep cfg" r]
      by auto
    with assms(1-3) show ?thesis by (simp add: request_p0_not_found)
  qed
  then show ?thesis
    by (simp add: ping_p0_def getCRE_p0_def createCRE_p0_def get_p0_def post_p0_def)
qed

text \<open>
  Claim C6. \<open>getCRE(offeringId)\<close> returns \<open>null\<close>, and throws nothing, when the
  upstream answers 404. The constructor of \<^verbatim>\<open>src/unnamed/part_000\<close> takes a logger
  and, as an option, \<open>loggerConfig\<close>; \<open>_writeLog\<close> looks whether there is a logger
  but reads \<open>this.loggerConfig.url\<close> without looking whether \<open>loggerConfig\<close> is
  there. For a client with a logger and no \<open>loggerConfig\<close>, the 404 is never turned
  into \<open>null\<close>: \<open>getCRE\<close> rejects with a \<open>TypeError\<close>.
\<close>

theorem getCRE_p0_not_found_type_error:
  "logger sample_client_p0_logger = Some sample_logger
   \<and> loggerConfig sample_client_p0_logger = JUndefined
   \<and> status (upstream_response 404 ''Not Found'') = 404
   \<and> getCRE_p0 (axios_status 404 ''Not Found'') sample_client_p0_logger (JStr ''OFF-1'') =
       (None, Inl (TypeError ''Cannot read properties of undefined (reading url)''))"
  by (simp add: sample_defs request_defs client_defs)

text \<open>
  Claim C10. The conversion of a 404 to \<open>null\<close> stands in the shared \<open>_request\<close>,
  so \<open>createCRE\<close> and \<open>ping\<close> return \<open>null\<close> on a 404 as \<open>getCRE\<close> does (the
  lemmas above, for a client without a logger or with a configured one). For the
  client with a logger and no \<open>loggerConfig\<close> the read of \<open>this.loggerConfig.url\<close>
  throws before the conversion is reached, in these two operations as well.
\<close>

theorem operations_p0_not_found_type_error:
  "ping_p0 (axios_status 404 ''Not Found'') sample_client_p0_logger =
     (None, Inl (TypeError ''Cannot read properties of undefined (reading url)''))
   \<and> createCRE_p0 (axios_status 404 ''Not Found'') sample_client_p0_logger (JStr ''ORG1'')
        (JNum 12) (JNum 34) [sample_instructor] =
     (None, Inl (TypeError ''Cannot read properties of undefined (reading url)''))"
  by (simp add: sample_defs request_defs client_defs)

end
